theory Spec2Isabelle
  imports Complex_Main "HOL-Library.Word"
begin

section \<open>Numbers\<close>

text \<open>
  The Rust snippets compute on \<open>f32\<close> and the TypeScript utilities on \<open>number\<close>.
  Both are embedded as \<open>real\<close>: every formula is the one the source writes, evaluated
  in exact arithmetic, so rounding, NaN and the infinities are outside the model.
\<close>

definition clamp :: "real \<Rightarrow> real \<Rightarrow> real \<Rightarrow> real" where
  \<comment> \<open>\<open>f32::clamp(self, min, max)\<close>; every call site passes \<open>(0.0, 1.0)\<close>.\<close>
  "clamp x lo hi = (if x < lo then lo else if hi < x then hi else x)"

section \<open>TypeScript client utilities (src/utils/polkadot-client.ts)\<close>

record EmotionData =
  valence :: real
  arousal :: real
  dominance :: real
  confidence :: real
  timestamp :: int

definition createEmotionData ::
  "int \<Rightarrow> real \<Rightarrow> real \<Rightarrow> real \<Rightarrow> real option \<Rightarrow> EmotionData" where
  \<comment> \<open>\<open>date_now\<close> is the value \<open>Date.now()\<close> returns; an omitted \<open>confidence\<close> is
      \<open>None\<close> and takes the default 85.\<close>
  "createEmotionData date_now v a d confidence_arg =
     (let c = (case confidence_arg of None \<Rightarrow> 85 | Some c' \<Rightarrow> c') in
      \<lparr> valence = max (- 1) (min 1 v),
        arousal = max (- 1) (min 1 a),
        dominance = max (- 1) (min 1 d),
        confidence = max 0 (min 100 c),
        timestamp = date_now \<rparr>)"

section \<open>Emotional analytics (TECHNICAL_ARCHITECTURE.md, Rust)\<close>

text \<open>
  The declarations of the Rust structs are not part of the sources; the records below
  carry the fields the functions read and write. An entry of a history or of a
  trajectory exposes \<open>valence\<close>, \<open>arousal\<close> and \<open>dominance\<close>.
\<close>

record EmotionalPoint =
  valence :: real
  arousal :: real
  dominance :: real

record EmotionalMetadata = EmotionalPoint +
  emotional_trajectory :: "EmotionalPoint list"
  emotional_complexity :: real

datatype EmotionalTrend = Ascending | Descending | Stable | Volatile

definition analyze_emotional_trend :: "'a EmotionalPoint_scheme list \<Rightarrow> EmotionalTrend" where
  "analyze_emotional_trend history =
     (if length history < 2 then Stable
      else
        let recent = take (min 5 (length history)) history;
            oldest = hd recent;
            newest = last recent;
            valence_diff = valence newest - valence oldest;
            arousal_diff = arousal newest - arousal oldest;
            v = \<bar>valence_diff\<bar>;
            a = \<bar>arousal_diff\<bar>
        in
          if v < 0.1 \<and> a < 0.1 then Stable
          else if v > 0.3 \<or> a > 0.3 then Volatile
          else
            (if valence_diff > 0.1 \<or> arousal_diff > 0.1 then Ascending
             else if valence_diff < - 0.1 \<or> arousal_diff < - 0.1 then Descending
             else Stable))"

definition calculate_complexity :: "EmotionalMetadata \<Rightarrow> EmotionalMetadata" where
  \<comment> \<open>\<open>&mut self\<close>: the updated record is returned. The \<open>for i in 1..len\<close> loop is the
      fold over the index range, \<open>total_distance\<close> its accumulator.\<close>
  "calculate_complexity self =
     (let traj = emotional_trajectory self in
      if length traj < 2 then self\<lparr>emotional_complexity := 0\<rparr>
      else
        let total_distance =
              fold (\<lambda>i total.
                      let prev = traj ! (i - 1);
                          curr = traj ! i;
                          distance = sqrt ((valence curr - valence prev)\<^sup>2 +
                                           (arousal curr - arousal prev)\<^sup>2)
                      in total + distance)
                   [1..<length traj] 0
        in self\<lparr>emotional_complexity := clamp (total_distance / real (length traj)) 0 1\<rparr>)"

section \<open>Soulbound reputation (TECHNICAL_ARCHITECTURE.md, Rust)\<close>

datatype VerificationLevel = Basic | Verified | Enhanced | Premium

record Activity =
  category_scores :: "(string \<times> real) list"
  \<comment> \<open>the entries in the order the \<open>for\<close> loop visits them\<close>

record ReputationScore =
  overall_score :: real
  emotional_consistency :: real
  creative_output_quality :: real
  community_engagement :: real
  cross_chain_activity :: real
  temporal_stability :: real
  verification_level :: VerificationLevel
  category_scores :: "string \<rightharpoonup> real"

definition calculate_weighted_score :: "ReputationScore \<Rightarrow> real" where
  \<comment> \<open>the method \<open>ReputationScore::calculate_weighted_score(&self)\<close>, over the fields\<close>
  "calculate_weighted_score self =
     (let base_score =
            emotional_consistency self * 0.25 +
            creative_output_quality self * 0.25 +
            community_engagement self * 0.20 +
            cross_chain_activity self * 0.15 +
            temporal_stability self * 0.15;
          verification_multiplier =
            (case verification_level self of
               Basic \<Rightarrow> 0.8
             | Verified \<Rightarrow> 1.0
             | Enhanced \<Rightarrow> 1.2
             | Premium \<Rightarrow> 1.5)
      in clamp (base_score * verification_multiplier) 0 1)"

text \<open>
  Of a token, \<open>update_reputation\<close> touches the reputation score and \<open>last_updated\<close>; the
  other fields (owner, identity data, badges, metadata URI) are left out. The type of a
  timestamp is not declared in the sources: timestamps are integers, and the properties
  below are stated for a clock that has not gone back behind \<open>last_updated\<close>, where the
  elapsed time \<open>current_time - last_updated\<close> is the same number in every integer type.
\<close>

record SoulboundToken =
  reputation_score :: ReputationScore
  last_updated :: int

type_synonym H256 = "256 word"

record SoulboundManager =
  tokens :: "H256 \<rightharpoonup> SoulboundToken"

datatype error = TokenNotFound

definition get_token_mut :: "SoulboundManager \<Rightarrow> H256 \<Rightarrow> error + SoulboundToken" where
  \<comment> \<open>Not in the sources, and the spec is silent about it. Its use,
      \<open>self.get_token_mut(token_id)?\<close>, makes it the fallible lookup of the token the manager
      holds under the id.\<close>
  "get_token_mut self token_id =
     (case tokens self token_id of None \<Rightarrow> Inl TokenNotFound | Some token \<Rightarrow> Inr token)"

type_synonym Clock = "nat \<Rightarrow> int"
  \<comment> \<open>the system clock: the value the k-th coming read returns\<close>

definition current_timestamp :: "Clock \<Rightarrow> int \<times> Clock" where
  "current_timestamp clock = (clock 0, \<lambda>k. clock (Suc k))"

text \<open>
  Modelled from the spec: \<open>calculate_exponential_decay(last_updated, current_time,
  DECAY_HALF_LIFE)\<close> is called by \<open>update_reputation\<close> and is not in the sources. The spec
  gives \<open>elapsed = now - state.last_updated\<close> and
  \<open>decay = exp(-ln(2) * elapsed / HALF_LIFE)\<close>.
\<close>

definition calculate_exponential_decay :: "int \<Rightarrow> int \<Rightarrow> real \<Rightarrow> real" where
  "calculate_exponential_decay last_upd current_time half_life =
     (let elapsed = current_time - last_upd
      in exp (- ln 2 * real_of_int elapsed / half_life))"

text \<open>
  Modelled from the spec: the lookup inside the weighted sum of the free function
  \<open>calculate_weighted_score(&category_scores)\<close>, which is not in the sources. The spec has
  a canonical category that is missing from the map count as 0.0.
\<close>

definition score_or_zero :: "(string \<rightharpoonup> real) \<Rightarrow> string \<Rightarrow> real" where
  "score_or_zero scores key = (case scores key of None \<Rightarrow> 0 | Some s \<Rightarrow> s)"

text \<open>
  Modelled from the spec: the free function \<open>calculate_weighted_score(&category_scores)\<close>
  that \<open>update_reputation\<close> calls on the category map is not in the sources (the method of
  the same name above reads the fields of the score instead). The spec gives
  \<open>base_score\<close> as the fixed-weight sum over the five canonical keys.
\<close>

definition calculate_weighted_score_of_map :: "(string \<rightharpoonup> real) \<Rightarrow> real" where
  "calculate_weighted_score_of_map scores =
     0.25 * score_or_zero scores ''emotional_consistency'' +
     0.25 * score_or_zero scores ''creative_output_quality'' +
     0.20 * score_or_zero scores ''community_engagement'' +
     0.15 * score_or_zero scores ''cross_chain_activity'' +
     0.15 * score_or_zero scores ''temporal_stability''"

primrec update_category_scores ::
  "real \<Rightarrow> (string \<times> real) list \<Rightarrow> (string \<rightharpoonup> real) \<Rightarrow> (string \<rightharpoonup> real)" where
  \<comment> \<open>the loop \<open>for (category, new_score) in &new_activity.category_scores\<close>\<close>
  "update_category_scores time_decay [] scores = scores"
| "update_category_scores time_decay (entry # rest) scores =
     (let category = fst entry;
          new_score = snd entry;
          current = (case scores category of None \<Rightarrow> 0.5 | Some c \<Rightarrow> c);
          decayed_current = current * time_decay;
          updated = clamp (decayed_current + new_score * (1 - time_decay)) 0 1
      in update_category_scores time_decay rest (scores(category \<mapsto> updated)))"

definition update_reputation ::
  "real \<Rightarrow> ((string \<rightharpoonup> real) \<Rightarrow> int \<Rightarrow> real) \<Rightarrow> Clock \<Rightarrow>
   SoulboundManager \<Rightarrow> H256 \<Rightarrow> Activity \<Rightarrow>
   (error + ReputationScore) \<times> SoulboundManager \<times> Clock" where
  \<comment> \<open>\<open>DECAY_HALF_LIFE\<close> and \<open>calculate_temporal_stability\<close> are not in the sources and
      are parameters. The result is the returned value, the manager after the call
      (\<open>&mut self\<close>) and the clock after the call.\<close>
  "update_reputation DECAY_HALF_LIFE calculate_temporal_stability clock self token_id new_activity =
     (case get_token_mut self token_id of
        Inl e \<Rightarrow> (Inl e, self, clock)
      | Inr token \<Rightarrow>
          let current_time = fst (current_timestamp clock);
              clock' = snd (current_timestamp clock);
              time_decay =
                calculate_exponential_decay (last_updated token) current_time DECAY_HALF_LIFE;
              scores =
                update_category_scores time_decay (Activity.category_scores new_activity)
                  (category_scores (reputation_score token));
              base_score = calculate_weighted_score_of_map scores;
              verification_multiplier =
                (case verification_level (reputation_score token) of
                   Basic \<Rightarrow> 0.8
                 | Verified \<Rightarrow> 1.0
                 | Enhanced \<Rightarrow> 1.2
                 | Premium \<Rightarrow> 1.5);
              score = (reputation_score token)
                \<lparr> category_scores := scores,
                  overall_score := clamp (base_score * verification_multiplier) 0 1,
                  temporal_stability :=
                    calculate_temporal_stability scores (current_time - last_updated token) \<rparr>;
              token' = token \<lparr> reputation_score := score, last_updated := current_time \<rparr>
          in (Inr score, self \<lparr> tokens := (tokens self)(token_id \<mapsto> token') \<rparr>, clock'))"

section \<open>The specification's trend classifier\<close>

text \<open>
  The specification's wording of \<open>classify_trend\<close>, kept apart from the code's
  \<open>analyze_emotional_trend\<close> for comparison: the priority rule on the two diffs, and
  the window taken as the last \<open>min(5, len)\<close> entries of the trajectory.
\<close>

definition spec_trend_rule :: "real \<Rightarrow> real \<Rightarrow> EmotionalTrend" where
  "spec_trend_rule valence_diff arousal_diff =
     (if \<bar>valence_diff\<bar> < 0.1 \<and> \<bar>arousal_diff\<bar> < 0.1 then Stable
      else if \<bar>valence_diff\<bar> > 0.3 \<or> \<bar>arousal_diff\<bar> > 0.3 then Volatile
      else if valence_diff > 0.1 \<or> arousal_diff > 0.1 then Ascending
      else if valence_diff < - 0.1 \<or> arousal_diff < - 0.1 then Descending
      else Stable)"

definition spec_window :: "'a list \<Rightarrow> 'a list" where
  "spec_window trajectory = drop (length trajectory - min 5 (length trajectory)) trajectory"

definition spec_classify_trend :: "'a EmotionalPoint_scheme list \<Rightarrow> EmotionalTrend" where
  "spec_classify_trend trajectory =
     (if length trajectory < 2 then Stable
      else
        let window = spec_window trajectory;
            oldest = hd window;
            newest = last window
        in spec_trend_rule (valence newest - valence oldest) (arousal newest - arousal oldest))"

section \<open>Sample inputs\<close>

definition point :: "real \<Rightarrow> real \<Rightarrow> EmotionalPoint" where
  "point v a = \<lparr> valence = v, arousal = a, dominance = 0 \<rparr>"

definition sample_history :: "EmotionalPoint list" where
  \<comment> \<open>six observations, oldest first: five at rest, then a jump of the valence\<close>
  "sample_history = [point 0 0, point 0 0, point 0 0, point 0 0, point 0 0, point 1 0]"

definition sample_metadata :: EmotionalMetadata where
  "sample_metadata =
     \<lparr> valence = 0, arousal = 0, dominance = 0,
       emotional_trajectory = [point 0 0, point (3 / 5) (4 / 5)],
       emotional_complexity = 0 \<rparr>"

definition sample_score :: ReputationScore where
  "sample_score =
     \<lparr> overall_score = 0, emotional_consistency = 0, creative_output_quality = 0,
       community_engagement = 0, cross_chain_activity = 0, temporal_stability = 0,
       verification_level = Verified,
       category_scores = [''creative_output_quality'' \<mapsto> 0.5, ''mentoring'' \<mapsto> 0.3] \<rparr>"

definition premium_score :: ReputationScore where
  "premium_score = sample_score \<lparr> creative_output_quality := 1, verification_level := Premium \<rparr>"

definition sample_token :: SoulboundToken where
  "sample_token = \<lparr> reputation_score = sample_score, last_updated = 10 \<rparr>"

definition sample_manager :: SoulboundManager where
  "sample_manager = \<lparr> tokens = [0 \<mapsto> sample_token] \<rparr>"

definition sample_activity :: Activity where
  "sample_activity = \<lparr> Activity.category_scores = [(''creative_output_quality'', 1)] \<rparr>"

definition empty_activity :: Activity where
  "empty_activity = \<lparr> Activity.category_scores = [] \<rparr>"

definition clock_at :: "int \<Rightarrow> Clock" where
  \<comment> \<open>a clock whose every read returns \<open>t\<close>\<close>
  "clock_at t = (\<lambda>k. t)"

definition ticking_clock :: "int \<Rightarrow> Clock" where
  \<comment> \<open>a clock that starts at \<open>t\<close> and advances by one at every read\<close>
  "ticking_clock t = (\<lambda>k. t + int k)"

definition flat_stability :: "(string \<rightharpoonup> real) \<Rightarrow> int \<Rightarrow> real" where
  \<comment> \<open>a stand-in for the parameter \<open>calculate_temporal_stability\<close>\<close>
  "flat_stability scores elapsed = 1"

section \<open>Properties\<close>

subsection \<open>The category loop and the shape of a successful update\<close>

lemma update_category_scores_absent:
  "category \<notin> fst ` set entries \<Longrightarrow>
   update_category_scores d entries scores category = scores category"
  by (induction entries arbitrary: scores) (auto simp: Let_def)

lemma update_category_scores_present:
  "distinct (map fst entries) \<Longrightarrow> (category, new_score) \<in> set entries \<Longrightarrow>
   update_category_scores d entries scores category =
     Some (clamp ((case scores category of None \<Rightarrow> 0.5 | Some c \<Rightarrow> c) * d
                   + new_score * (1 - d)) 0 1)"
proof (induction entries arbitrary: scores)
  case Nil
  then show ?case by simp
next
  case (Cons entry rest)
  show ?case
  proof (cases "entry = (category, new_score)")
    case True
    with Cons.prems have "category \<notin> fst ` set rest" by auto
    then show ?thesis using True
      by (simp add: Let_def update_category_scores_absent)
  next
    case False
    with Cons.prems have mem: "(category, new_score) \<in> set rest" by auto
    then have "category \<in> fst ` set rest" by force
    with Cons.prems have "fst entry \<noteq> category" by auto
    then show ?thesis using Cons.IH [OF _ mem] Cons.prems
      by (simp add: Let_def)
  qed
qed

lemma update_reputation_found:
  assumes "tokens self token_id = Some token"
  shows "update_reputation hl cts clock self token_id act =
     (let current_time = clock 0;
          time_decay = calculate_exponential_decay (last_updated token) current_time hl;
          scores = update_category_scores time_decay (Activity.category_scores act)
                     (category_scores (reputation_score token));
          score = (reputation_score token)
            \<lparr> category_scores := scores,
              overall_score := clamp (calculate_weighted_score_of_map scores *
                 (case verification_level (reputation_score token) of
                   Basic \<Rightarrow> 0.8 | Verified \<Rightarrow> 1.0 | Enhanced \<Rightarrow> 1.2 | Premium \<Rightarrow> 1.5)) 0 1,
              temporal_stability := cts scores (current_time - last_updated token) \<rparr>
      in (Inr score,
          self \<lparr> tokens := (tokens self)(token_id \<mapsto>
                   token \<lparr> reputation_score := score, last_updated := current_time \<rparr>) \<rparr>,
          \<lambda>k. clock (Suc k)))"
  using assms
  by (simp add: update_reputation_def get_token_mut_def current_timestamp_def Let_def)

subsection \<open>The decay at the sample inputs\<close>

lemma sample_decay_half: "calculate_exponential_decay 10 17 7 = 1 / 2"
  by (simp add: calculate_exponential_decay_def exp_minus inverse_eq_divide)

lemma sample_decay_one: "calculate_exponential_decay 10 10 7 = 1"
  by (simp add: calculate_exponential_decay_def)

subsection \<open>Decay and blend as functions of the elapsed time\<close>

lemma decay_le_one:
  "0 < hl \<Longrightarrow> l \<le> t \<Longrightarrow> calculate_exponential_decay l t hl \<le> 1"
  by (simp add: calculate_exponential_decay_def divide_le_0_iff mult_le_0_iff)

lemma decay_nonneg: "0 \<le> calculate_exponential_decay l t hl"
  by (simp add: calculate_exponential_decay_def)

lemma decay_antimono:
  assumes "0 < hl" "t1 \<le> t2"
  shows "calculate_exponential_decay l t2 hl \<le> calculate_exponential_decay l t1 hl"
proof -
  have "real_of_int (t1 - l) \<le> real_of_int (t2 - l)" using assms(2) by simp
  then have "ln 2 * real_of_int (t1 - l) \<le> ln 2 * real_of_int (t2 - l)"
    by (intro mult_left_mono) simp_all
  then have "- ln 2 * real_of_int (t2 - l) / hl \<le> - ln 2 * real_of_int (t1 - l) / hl"
    using assms(1) by (simp add: divide_right_mono)
  then show ?thesis by (simp add: calculate_exponential_decay_def)
qed

lemma decay_strict_antimono:
  assumes "0 < hl" "t1 < t2"
  shows "calculate_exponential_decay l t2 hl < calculate_exponential_decay l t1 hl"
proof -
  have "real_of_int (t1 - l) < real_of_int (t2 - l)" using assms(2) by simp
  then have "ln 2 * real_of_int (t1 - l) < ln 2 * real_of_int (t2 - l)"
    by (intro mult_strict_left_mono) simp_all
  then have "- ln 2 * real_of_int (t2 - l) / hl < - ln 2 * real_of_int (t1 - l) / hl"
    using assms(1) by (simp add: divide_strict_right_mono)
  then show ?thesis by (simp add: calculate_exponential_decay_def)
qed

lemma blend_weakly_monotone:
  fixes p a d1 d2 :: real
  assumes "0 \<le> d2" "d2 \<le> d1" "d1 \<le> 1"
  shows "\<bar>clamp (p * d2 + a * (1 - d2)) 0 1 - a\<bar> \<le> \<bar>clamp (p * d1 + a * (1 - d1)) 0 1 - a\<bar> \<and>
         \<bar>clamp (p * d1 + a * (1 - d1)) 0 1 - p\<bar> \<le> \<bar>clamp (p * d2 + a * (1 - d2)) 0 1 - p\<bar>"
proof -
  define x1 where "x1 = p * d1 + a * (1 - d1)"
  define x2 where "x2 = p * d2 + a * (1 - d2)"
  have e1: "x1 = a + (p - a) * d1" and e2: "x2 = a + (p - a) * d2"
    by (simp_all add: x1_def x2_def algebra_simps)
  have order: "(a \<le> x2 \<and> x2 \<le> x1 \<and> x1 \<le> p) \<or> (p \<le> x1 \<and> x1 \<le> x2 \<and> x2 \<le> a)"
  proof (cases "a \<le> p")
    case True
    then have "0 \<le> (p - a) * d2" "(p - a) * d2 \<le> (p - a) * d1" "(p - a) * d1 \<le> p - a"
      using assms mult_left_mono [of d1 1 "p - a"] by (simp_all add: mult_left_mono)
    then show ?thesis unfolding e1 e2 by simp
  next
    case False
    then have "0 \<le> (a - p) * d2" "(a - p) * d2 \<le> (a - p) * d1" "(a - p) * d1 \<le> a - p"
      using assms mult_left_mono [of d1 1 "a - p"] by (simp_all add: mult_left_mono)
    then show ?thesis unfolding e1 e2 by (simp add: algebra_simps)
  qed
  then show ?thesis
    unfolding x1_def [symmetric] x2_def [symmetric] clamp_def by auto
qed

lemma blend_strictly_monotone:
  fixes p a d1 d2 :: real
  assumes "0 \<le> d2" "d2 < d1" "d1 \<le> 1" "p \<noteq> a" "0 \<le> p" "p \<le> 1" "0 \<le> a" "a \<le> 1"
  shows "\<bar>clamp (p * d2 + a * (1 - d2)) 0 1 - a\<bar> < \<bar>clamp (p * d1 + a * (1 - d1)) 0 1 - a\<bar> \<and>
         \<bar>clamp (p * d1 + a * (1 - d1)) 0 1 - p\<bar> < \<bar>clamp (p * d2 + a * (1 - d2)) 0 1 - p\<bar>"
proof -
  define x1 where "x1 = p * d1 + a * (1 - d1)"
  define x2 where "x2 = p * d2 + a * (1 - d2)"
  have e1: "x1 = a + (p - a) * d1" and e2: "x2 = a + (p - a) * d2"
    by (simp_all add: x1_def x2_def algebra_simps)
  have order: "(a \<le> x2 \<and> x2 < x1 \<and> x1 \<le> p) \<or> (p \<le> x1 \<and> x1 < x2 \<and> x2 \<le> a)"
  proof (cases "a < p")
    case True
    then have "0 \<le> (p - a) * d2" "(p - a) * d2 < (p - a) * d1" "(p - a) * d1 \<le> (p - a) * 1"
      using assms by (auto intro: mult_left_mono)
    then show ?thesis unfolding e1 e2 by simp
  next
    case False
    with assms(4) have "p < a" by simp
    then have "0 \<le> (a - p) * d2" "(a - p) * d2 < (a - p) * d1" "(a - p) * d1 \<le> (a - p) * 1"
      using assms by (auto intro: mult_left_mono)
    then show ?thesis unfolding e1 e2 by (simp add: algebra_simps)
  qed
  then show ?thesis
    using assms(5-8)
    unfolding x1_def [symmetric] x2_def [symmetric] clamp_def by auto
qed

subsection \<open>The loop of the complexity score and the ends of the trend window\<close>

lemma fold_add_upt:
  "fold (\<lambda>i total. total + f i) [a..<b] (s::real) = s + sum f {a..<b}"
proof (induction b)
  case 0
  then show ?case by simp
next
  case (Suc b)
  show ?case
  proof (cases "a \<le> b")
    case True
    then show ?thesis using Suc by (simp add: sum.atLeastLessThan_Suc)
  next
    case False
    then show ?thesis by simp
  qed
qed

lemma recent_ends:
  assumes "2 \<le> length history"
  shows "hd (take (min 5 (length history)) history) = history ! 0"
    and "last (take (min 5 (length history)) history) = history ! (min 5 (length history) - 1)"
proof -
  from assms have ne: "history \<noteq> []" by (cases history) simp_all
  from assms have pos: "0 < min 5 (length history)" by (cases history) simp_all
  show "hd (take (min 5 (length history)) history) = history ! 0"
    using ne pos by (simp add: hd_conv_nth)
  have "min 5 (length history) - 1 < min 5 (length history)"
    using pos by arith
  then have "take (min 5 (length history)) history ! (min 5 (length history) - 1)
               = history ! (min 5 (length history) - 1)"
    by (rule nth_take)
  then show "last (take (min 5 (length history)) history)
               = history ! (min 5 (length history) - 1)"
    using ne by (simp add: last_conv_nth)
qed

lemma sample_complexity:
  "emotional_complexity (calculate_complexity sample_metadata) = 1 / 2"
  by (simp add: calculate_complexity_def Let_def sample_metadata_def point_def clamp_def
        power_divide)

lemma analyze_emotional_trend_first_five:
  assumes "5 \<le> length history"
  shows "analyze_emotional_trend (history @ later) = analyze_emotional_trend history"
  using assms by (simp add: analyze_emotional_trend_def Let_def min_def)

subsection \<open>Inputs far outside the ranges\<close>

lemma createEmotionData_far_outside:
  "createEmotionData 1700000000000 5 (- 1000) (1 / 2) (Some 250)
     = \<lparr> EmotionData.valence = 1, EmotionData.arousal = - 1, EmotionData.dominance = 1 / 2,
         confidence = 100, timestamp = 1700000000000 \<rparr>"
  by (simp add: createEmotionData_def)

subsection \<open>The claims\<close>

text \<open>
  C10. Whatever real numbers are passed, \<open>createEmotionData\<close> clamps and never rejects:
  each of valence, arousal and dominance comes back as -1 when the input is below -1, as
  1 when it is above 1 and unchanged in between; the confidence comes back as 0 below 0,
  as 100 above 100 and unchanged in between, an omitted confidence giving 85; the
  timestamp is the reading of \<open>Date.now()\<close>. So valence, arousal and dominance of the
  result lie in [-1, 1] and its confidence in [0, 100].
\<close>

theorem createEmotionData_clamped:
  "EmotionData.valence (createEmotionData date_now v a d c)
     = (if v < - 1 then - 1 else if 1 < v then 1 else v) \<and>
   EmotionData.arousal (createEmotionData date_now v a d c)
     = (if a < - 1 then - 1 else if 1 < a then 1 else a) \<and>
   EmotionData.dominance (createEmotionData date_now v a d c)
     = (if d < - 1 then - 1 else if 1 < d then 1 else d) \<and>
   confidence (createEmotionData date_now v a d (Some given))
     = (if given < 0 then 0 else if 100 < given then 100 else given) \<and>
   confidence (createEmotionData date_now v a d None) = 85 \<and>
   timestamp (createEmotionData date_now v a d c) = date_now \<and>
   - 1 \<le> EmotionData.valence (createEmotionData date_now v a d c) \<and>
   EmotionData.valence (createEmotionData date_now v a d c) \<le> 1 \<and>
   - 1 \<le> EmotionData.arousal (createEmotionData date_now v a d c) \<and>
   EmotionData.arousal (createEmotionData date_now v a d c) \<le> 1 \<and>
   - 1 \<le> EmotionData.dominance (createEmotionData date_now v a d c) \<and>
   EmotionData.dominance (createEmotionData date_now v a d c) \<le> 1 \<and>
   0 \<le> confidence (createEmotionData date_now v a d c) \<and>
   confidence (createEmotionData date_now v a d c) \<le> 100"
proof -
  have axis: "max (- 1) (min 1 x) = (if x < - 1 then - 1 else if 1 < x then 1 else x)"
    for x :: real
    by (simp add: max_def min_def)
  have conf: "max 0 (min 100 x) = (if x < 0 then 0 else if 100 < x then 100 else x)"
    for x :: real
    by (simp add: max_def min_def)
  show ?thesis
    unfolding createEmotionData_def Let_def
    by (simp add: axis conf split: option.split)
qed

text \<open>
  C1. For a registered token, an activity (its keys distinct, as the keys of a map are)
  and a clock reading not before \<open>last_updated\<close>, \<open>update_reputation\<close> succeeds and every
  category of the activity ends with the blend
  \<open>clamp(current * decay + new_score * (1 - decay), 0, 1)\<close>, where \<open>current\<close> is the score
  stored for the key before the call, or 0.5 when the key was never seen, and \<open>decay\<close> is
  the decay over the elapsed time.
\<close>

theorem update_reputation_blends_touched_categories:
  assumes "tokens self token_id = Some token"
    and "last_updated token \<le> clock 0"
    and "distinct (map fst (Activity.category_scores new_activity))"
    and "(category, new_score) \<in> set (Activity.category_scores new_activity)"
  shows "\<exists>score self' clock'.
     update_reputation hl cts clock self token_id new_activity = (Inr score, self', clock') \<and>
     map_option reputation_score (tokens self' token_id) = Some score \<and>
     category_scores score category =
       Some (clamp
         ((case category_scores (reputation_score token) category of
             None \<Rightarrow> 0.5 | Some current \<Rightarrow> current)
            * calculate_exponential_decay (last_updated token) (clock 0) hl
          + new_score * (1 - calculate_exponential_decay (last_updated token) (clock 0) hl))
         0 1)"
  using assms(1) update_category_scores_present [OF assms(3,4)]
  by (simp add: update_reputation_found Let_def)

theorem update_reputation_blends_touched_categories_witness:
  "tokens sample_manager 0 = Some sample_token \<and>
   last_updated sample_token \<le> clock_at 17 0 \<and>
   distinct (map fst (Activity.category_scores sample_activity)) \<and>
   (''creative_output_quality'', 1) \<in> set (Activity.category_scores sample_activity) \<and>
   (\<exists>score self' clock'.
      update_reputation 7 flat_stability (clock_at 17) sample_manager 0 sample_activity
        = (Inr score, self', clock') \<and>
      map_option reputation_score (tokens self' 0) = Some score \<and>
      category_scores score ''creative_output_quality'' = Some (3 / 4))"
proof -
  have h1: "tokens sample_manager 0 = Some sample_token"
    by (simp add: sample_manager_def)
  have h2: "last_updated sample_token \<le> clock_at 17 0"
    by (simp add: sample_token_def clock_at_def)
  have h3: "distinct (map fst (Activity.category_scores sample_activity))"
    by (simp add: sample_activity_def)
  have h4: "(''creative_output_quality'', 1) \<in> set (Activity.category_scores sample_activity)"
    by (simp add: sample_activity_def)
  have v: "clamp ((case category_scores (reputation_score sample_token) ''creative_output_quality'' of
             None \<Rightarrow> 0.5 | Some current \<Rightarrow> current)
            * calculate_exponential_decay (last_updated sample_token) (clock_at 17 0) 7
          + 1 * (1 - calculate_exponential_decay (last_updated sample_token) (clock_at 17 0) 7))
         0 1 = 3 / 4"
    by (simp add: sample_token_def sample_score_def clock_at_def sample_decay_half clamp_def)
  show ?thesis
    using update_reputation_blends_touched_categories
            [where clock = "clock_at 17" and hl = 7 and cts = flat_stability,
             OF h1 h2 h3 h4] h1 h2 h3 h4
    unfolding v by simp
qed

text \<open>
  C7. After a successful \<open>update_reputation\<close>, a category that the activity does not
  mention has exactly the entry it had before (its score if it had one, none otherwise):
  no decay is applied to it. The verification level is the one of the old state.
\<close>

theorem update_reputation_frame:
  assumes "tokens self token_id = Some token"
    and "last_updated token \<le> clock 0"
    and "category \<notin> fst ` set (Activity.category_scores new_activity)"
  shows "\<exists>score self' clock'.
     update_reputation hl cts clock self token_id new_activity = (Inr score, self', clock') \<and>
     map_option reputation_score (tokens self' token_id) = Some score \<and>
     category_scores score category = category_scores (reputation_score token) category \<and>
     verification_level score = verification_level (reputation_score token)"
  using assms(1) update_category_scores_absent [OF assms(3)]
  by (simp add: update_reputation_found Let_def)

theorem update_reputation_frame_witness:
  "tokens sample_manager 0 = Some sample_token \<and>
   last_updated sample_token \<le> clock_at 17 0 \<and>
   ''mentoring'' \<notin> fst ` set (Activity.category_scores sample_activity) \<and>
   (\<exists>score self' clock'.
      update_reputation 7 flat_stability (clock_at 17) sample_manager 0 sample_activity
        = (Inr score, self', clock') \<and>
      map_option reputation_score (tokens self' 0) = Some score \<and>
      category_scores score ''mentoring'' = Some 0.3 \<and>
      verification_level score = Verified)"
proof -
  have h1: "tokens sample_manager 0 = Some sample_token"
    by (simp add: sample_manager_def)
  have h2: "last_updated sample_token \<le> clock_at 17 0"
    by (simp add: sample_token_def clock_at_def)
  have h3: "''mentoring'' \<notin> fst ` set (Activity.category_scores sample_activity)"
    by (simp add: sample_activity_def)
  have v: "category_scores (reputation_score sample_token) ''mentoring'' = Some 0.3"
    "verification_level (reputation_score sample_token) = Verified"
    by (simp_all add: sample_token_def sample_score_def)
  show ?thesis
    using update_reputation_frame
            [where clock = "clock_at 17" and hl = 7 and cts = flat_stability,
             OF h1 h2 h3] h1 h2 h3
    unfolding v by simp
qed

text \<open>
  C4. After a successful \<open>update_reputation\<close> the overall score is
  \<open>clamp(base_score * multiplier, 0, 1)\<close>: \<open>base_score\<close> is the weighted sum
  0.25, 0.25, 0.20, 0.15, 0.15 of the five canonical categories read from the category map
  after the blend, a missing one counting 0, and \<open>multiplier\<close> is 0.8, 1.0, 1.2 or 1.5
  for Basic, Verified, Enhanced or Premium. The method
  \<open>ReputationScore::calculate_weighted_score\<close> computes the same expression from the five
  fields of the score.
\<close>

theorem overall_score_formula:
  assumes "tokens self token_id = Some token"
    and "last_updated token \<le> clock 0"
  shows "(\<exists>score self' clock'.
     update_reputation hl cts clock self token_id new_activity = (Inr score, self', clock') \<and>
     overall_score score =
       clamp
         ((0.25 * score_or_zero (category_scores score) ''emotional_consistency'' +
           0.25 * score_or_zero (category_scores score) ''creative_output_quality'' +
           0.20 * score_or_zero (category_scores score) ''community_engagement'' +
           0.15 * score_or_zero (category_scores score) ''cross_chain_activity'' +
           0.15 * score_or_zero (category_scores score) ''temporal_stability'')
          * (case verification_level (reputation_score token) of
               Basic \<Rightarrow> 0.8 | Verified \<Rightarrow> 1.0 | Enhanced \<Rightarrow> 1.2 | Premium \<Rightarrow> 1.5))
         0 1) \<and>
     calculate_weighted_score rs =
       clamp
         ((0.25 * emotional_consistency rs +
           0.25 * creative_output_quality rs +
           0.20 * community_engagement rs +
           0.15 * cross_chain_activity rs +
           0.15 * temporal_stability rs)
          * (case verification_level rs of
               Basic \<Rightarrow> 0.8 | Verified \<Rightarrow> 1.0 | Enhanced \<Rightarrow> 1.2 | Premium \<Rightarrow> 1.5))
         0 1"
proof -
  have "calculate_weighted_score rs =
       clamp
         ((0.25 * emotional_consistency rs +
           0.25 * creative_output_quality rs +
           0.20 * community_engagement rs +
           0.15 * cross_chain_activity rs +
           0.15 * temporal_stability rs)
          * (case verification_level rs of
               Basic \<Rightarrow> 0.8 | Verified \<Rightarrow> 1.0 | Enhanced \<Rightarrow> 1.2 | Premium \<Rightarrow> 1.5))
         0 1"
    by (simp add: calculate_weighted_score_def Let_def mult.commute)
  then show ?thesis
    using assms(1)
    by (simp add: update_reputation_found Let_def calculate_weighted_score_of_map_def)
qed

theorem overall_score_formula_witness:
  "tokens sample_manager 0 = Some sample_token \<and>
   last_updated sample_token \<le> clock_at 17 0 \<and>
   (\<exists>score self' clock'.
      update_reputation 7 flat_stability (clock_at 17) sample_manager 0 sample_activity
        = (Inr score, self', clock') \<and>
      overall_score score = 3 / 16) \<and>
   calculate_weighted_score premium_score = 3 / 8"
proof -
  have h1: "tokens sample_manager 0 = Some sample_token"
    by (simp add: sample_manager_def)
  have h2: "last_updated sample_token \<le> clock_at 17 0"
    by (simp add: sample_token_def clock_at_def)
  have v: "verification_level (reputation_score sample_token) = Verified"
    by (simp add: sample_token_def sample_score_def)
  have t: "last_updated sample_token = 10"
    "category_scores (reputation_score sample_token) =
       [''creative_output_quality'' \<mapsto> 0.5, ''mentoring'' \<mapsto> 0.3]"
    by (simp_all add: sample_token_def sample_score_def)
  have r: "update_reputation 7 flat_stability (clock_at 17) sample_manager 0 sample_activity
        = (Inr score, self', clock') \<Longrightarrow>
      category_scores score = [''creative_output_quality'' \<mapsto> 3 / 4, ''mentoring'' \<mapsto> 0.3]"
    for score self' clock'
    by (auto simp add: update_reputation_found [OF h1] Let_def clock_at_def t sample_activity_def
          sample_decay_half clamp_def)
  have m: "score_or_zero [''creative_output_quality'' \<mapsto> 3 / 4, ''mentoring'' \<mapsto> 0.3]
             ''creative_output_quality'' = 3 / 4"
    "score_or_zero [''creative_output_quality'' \<mapsto> 3 / 4, ''mentoring'' \<mapsto> 0.3]
             ''emotional_consistency'' = 0"
    "score_or_zero [''creative_output_quality'' \<mapsto> 3 / 4, ''mentoring'' \<mapsto> 0.3]
             ''community_engagement'' = 0"
    "score_or_zero [''creative_output_quality'' \<mapsto> 3 / 4, ''mentoring'' \<mapsto> 0.3]
             ''cross_chain_activity'' = 0"
    "score_or_zero [''creative_output_quality'' \<mapsto> 3 / 4, ''mentoring'' \<mapsto> 0.3]
             ''temporal_stability'' = 0"
    by (simp_all add: score_or_zero_def)
  have c: "clamp (3 / 16) 0 1 = 3 / 16" "clamp (3 / 8) 0 1 = 3 / 8"
    by (simp_all add: clamp_def)
  have f: "emotional_consistency premium_score = 0"
    "community_engagement premium_score = 0"
    "cross_chain_activity premium_score = 0"
    "temporal_stability premium_score = 0"
    "creative_output_quality premium_score = 1"
    "verification_level premium_score = Premium"
    by (simp_all add: premium_score_def sample_score_def)
  from overall_score_formula
         [where clock = "clock_at 17" and hl = 7 and cts = flat_stability
            and new_activity = sample_activity
            and rs = premium_score,
          OF h1 h2]
  obtain score self' clock' where
    u: "update_reputation 7 flat_stability (clock_at 17) sample_manager 0 sample_activity
          = (Inr score, self', clock')"
    and o: "overall_score score =
       clamp
         ((0.25 * score_or_zero (category_scores score) ''emotional_consistency'' +
           0.25 * score_or_zero (category_scores score) ''creative_output_quality'' +
           0.20 * score_or_zero (category_scores score) ''community_engagement'' +
           0.15 * score_or_zero (category_scores score) ''cross_chain_activity'' +
           0.15 * score_or_zero (category_scores score) ''temporal_stability'')
          * (case verification_level (reputation_score sample_token) of
               Basic \<Rightarrow> 0.8 | Verified \<Rightarrow> 1.0 | Enhanced \<Rightarrow> 1.2 | Premium \<Rightarrow> 1.5))
         0 1"
    and w: "calculate_weighted_score premium_score =
       clamp
         ((0.25 * emotional_consistency premium_score +
           0.25 * creative_output_quality premium_score +
           0.20 * community_engagement premium_score +
           0.15 * cross_chain_activity premium_score +
           0.15 * temporal_stability premium_score)
          * (case verification_level premium_score of
               Basic \<Rightarrow> 0.8 | Verified \<Rightarrow> 1.0 | Enhanced \<Rightarrow> 1.2 | Premium \<Rightarrow> 1.5))
         0 1"
    by blast
  have "overall_score score = 3 / 16"
    using o unfolding r [OF u] m v by (simp add: c)
  moreover have "calculate_weighted_score premium_score = 3 / 8"
    using w unfolding f by (simp add: c)
  ultimately show ?thesis using h1 h2 u by blast
qed

text \<open>
  C3 (as the code has it). \<open>update_reputation\<close> validates nothing but the token id. It
  reports an error, leaving the manager as it was and the clock unread, when the manager
  holds no token under the id. For a registered token and a clock reading not before
  \<open>last_updated\<close> it succeeds on every activity, an empty one and one with scores outside
  [0, 1] included, and stores the new score under the reading as \<open>last_updated\<close>.
\<close>

theorem update_reputation_fails_only_on_unknown_token:
  "(tokens self token_id = None \<longrightarrow>
      update_reputation hl cts clock self token_id new_activity
        = (Inl TokenNotFound, self, clock)) \<and>
   (\<forall>token. tokens self token_id = Some token \<and> last_updated token \<le> clock 0 \<longrightarrow>
      (\<exists>score self' clock'.
         update_reputation hl cts clock self token_id new_activity = (Inr score, self', clock') \<and>
         tokens self' token_id =
           Some (token \<lparr> reputation_score := score, last_updated := clock 0 \<rparr>)))"
  by (simp add: update_reputation_found Let_def)
     (simp add: update_reputation_def get_token_mut_def)

theorem update_reputation_fails_only_on_unknown_token_witness:
  "tokens sample_manager 1 = None \<and>
   update_reputation 7 flat_stability (clock_at 17) sample_manager 1 sample_activity
     = (Inl TokenNotFound, sample_manager, clock_at 17) \<and>
   tokens sample_manager 0 = Some sample_token \<and>
   last_updated sample_token \<le> clock_at 17 0 \<and>
   (\<exists>score self' clock'.
      update_reputation 7 flat_stability (clock_at 17) sample_manager 0 sample_activity
        = (Inr score, self', clock') \<and>
      tokens self' 0 =
        Some (sample_token \<lparr> reputation_score := score, last_updated := clock_at 17 0 \<rparr>))"
proof -
  have h0: "tokens sample_manager 1 = None"
    by (simp add: sample_manager_def)
  have h1: "tokens sample_manager 0 = Some sample_token"
    by (simp add: sample_manager_def)
  have h2: "last_updated sample_token \<le> clock_at 17 0"
    by (simp add: sample_token_def clock_at_def)
  show ?thesis
    using update_reputation_fails_only_on_unknown_token
            [of sample_manager 1 7 flat_stability "clock_at 17" sample_activity]
          update_reputation_fails_only_on_unknown_token
            [of sample_manager 0 7 flat_stability "clock_at 17" sample_activity]
          h0 h1 h2
    by simp
qed

text \<open>
  The claim as stated asks for an error on an empty activity. On the sample manager the
  call with an empty activity returns a score and moves \<open>last_updated\<close> from 10 to 17.
\<close>

theorem empty_activity_accepted:
  "Activity.category_scores empty_activity = [] \<and>
   update_reputation 7 flat_stability (clock_at 17) sample_manager 0 empty_activity =
     (Inr (sample_score \<lparr> overall_score := 1 / 8, temporal_stability := 1 \<rparr>),
      \<lparr> tokens = [0 \<mapsto> \<lparr> reputation_score =
                               sample_score \<lparr> overall_score := 1 / 8, temporal_stability := 1 \<rparr>,
                            last_updated = 17 \<rparr>] \<rparr>,
      clock_at 17) \<and>
   last_updated sample_token = 10"
proof -
  have h1: "tokens sample_manager 0 = Some sample_token"
    by (simp add: sample_manager_def)
  have b: "calculate_weighted_score_of_map (category_scores sample_score) = 1 / 8"
    by (simp add: calculate_weighted_score_of_map_def score_or_zero_def sample_score_def)
  show ?thesis
    by (simp add: update_reputation_found [OF h1] Let_def empty_activity_def b clamp_def
          flat_stability_def clock_at_def)
       (simp add: sample_token_def sample_manager_def sample_score_def
          calculate_weighted_score_of_map_def score_or_zero_def)
qed

text \<open>
  C8. For a fixed state and activity and a category of the activity, take two clock
  readings, the second not before the first (and the first not before \<open>last_updated\<close>).
  The later reading leaves the blended score no farther from the activity's score and no
  nearer to the prior value. When prior and activity score differ, both lie in [0, 1]
  and the second reading is strictly later, both comparisons are strict.
\<close>

theorem blend_monotone_in_elapsed:
  assumes "0 < hl"
    and "tokens self token_id = Some token"
    and "distinct (map fst (Activity.category_scores new_activity))"
    and "(category, new_score) \<in> set (Activity.category_scores new_activity)"
    and "last_updated token \<le> clock1 0"
    and "clock1 0 \<le> clock2 0"
    and "prior = (case category_scores (reputation_score token) category of
                    None \<Rightarrow> 0.5 | Some current \<Rightarrow> current)"
  shows "\<exists>score1 self1 rest1 score2 self2 rest2 u1 u2.
     update_reputation hl cts clock1 self token_id new_activity = (Inr score1, self1, rest1) \<and>
     update_reputation hl cts clock2 self token_id new_activity = (Inr score2, self2, rest2) \<and>
     category_scores score1 category = Some u1 \<and>
     category_scores score2 category = Some u2 \<and>
     \<bar>u2 - new_score\<bar> \<le> \<bar>u1 - new_score\<bar> \<and>
     \<bar>u1 - prior\<bar> \<le> \<bar>u2 - prior\<bar> \<and>
     (clock1 0 < clock2 0 \<and> prior \<noteq> new_score \<and>
      0 \<le> prior \<and> prior \<le> 1 \<and> 0 \<le> new_score \<and> new_score \<le> 1 \<longrightarrow>
        \<bar>u2 - new_score\<bar> < \<bar>u1 - new_score\<bar> \<and> \<bar>u1 - prior\<bar> < \<bar>u2 - prior\<bar>)"
proof -
  define d1 where "d1 = calculate_exponential_decay (last_updated token) (clock1 0) hl"
  define d2 where "d2 = calculate_exponential_decay (last_updated token) (clock2 0) hl"
  define u1 where "u1 = clamp (prior * d1 + new_score * (1 - d1)) 0 1"
  define u2 where "u2 = clamp (prior * d2 + new_score * (1 - d2)) 0 1"
  have bounds: "0 \<le> d2" "d2 \<le> d1" "d1 \<le> 1"
    unfolding d1_def d2_def
    using assms(1,5,6) by (simp_all add: decay_nonneg decay_antimono decay_le_one)
  have weak: "\<bar>u2 - new_score\<bar> \<le> \<bar>u1 - new_score\<bar> \<and> \<bar>u1 - prior\<bar> \<le> \<bar>u2 - prior\<bar>"
    unfolding u1_def u2_def by (rule blend_weakly_monotone [OF bounds])
  have strict: "\<bar>u2 - new_score\<bar> < \<bar>u1 - new_score\<bar> \<and> \<bar>u1 - prior\<bar> < \<bar>u2 - prior\<bar>"
    if "clock1 0 < clock2 0" "prior \<noteq> new_score"
       "0 \<le> prior" "prior \<le> 1" "0 \<le> new_score" "new_score \<le> 1"
  proof -
    have "d2 < d1" unfolding d1_def d2_def
      using assms(1) that(1) by (rule decay_strict_antimono)
    then show ?thesis
      unfolding u1_def u2_def
      using bounds that by (intro blend_strictly_monotone) simp_all
  qed
  have s1: "category_scores
              (reputation_score token
                 \<lparr> category_scores := update_category_scores d (Activity.category_scores new_activity)
                      (category_scores (reputation_score token)),
                   overall_score := x, temporal_stability := y \<rparr>) category
            = Some (clamp (prior * d + new_score * (1 - d)) 0 1)" for d x y
    using update_category_scores_present [OF assms(3,4)] assms(7) by simp
  show ?thesis
    using weak strict s1
    by (simp add: update_reputation_found [OF assms(2)] Let_def d1_def d2_def u1_def u2_def)
qed

theorem blend_monotone_in_elapsed_witness:
  "0 < (7::real) \<and>
   tokens sample_manager 0 = Some sample_token \<and>
   distinct (map fst (Activity.category_scores sample_activity)) \<and>
   (''creative_output_quality'', 1) \<in> set (Activity.category_scores sample_activity) \<and>
   last_updated sample_token \<le> clock_at 10 0 \<and>
   clock_at 10 0 < clock_at 17 0 \<and>
   (\<exists>score1 self1 rest1 score2 self2 rest2 u1 u2.
      update_reputation 7 flat_stability (clock_at 10) sample_manager 0 sample_activity
        = (Inr score1, self1, rest1) \<and>
      update_reputation 7 flat_stability (clock_at 17) sample_manager 0 sample_activity
        = (Inr score2, self2, rest2) \<and>
      category_scores score1 ''creative_output_quality'' = Some u1 \<and>
      category_scores score2 ''creative_output_quality'' = Some u2 \<and>
      \<bar>u2 - 1\<bar> < \<bar>u1 - 1\<bar> \<and> \<bar>u1 - 1 / 2\<bar> < \<bar>u2 - 1 / 2\<bar>)"
proof -
  have h1: "0 < (7::real)" by simp
  have h2: "tokens sample_manager 0 = Some sample_token"
    by (simp add: sample_manager_def)
  have h3: "distinct (map fst (Activity.category_scores sample_activity))"
    by (simp add: sample_activity_def)
  have h4: "(''creative_output_quality'', 1) \<in> set (Activity.category_scores sample_activity)"
    by (simp add: sample_activity_def)
  have h5: "last_updated sample_token \<le> clock_at 10 0"
    by (simp add: sample_token_def clock_at_def)
  have h6: "clock_at 10 0 \<le> clock_at 17 0" and h6': "clock_at 10 0 < clock_at 17 0"
    by (simp_all add: clock_at_def)
  have h7: "1 / 2 = (case category_scores (reputation_score sample_token)
                            ''creative_output_quality'' of
                       None \<Rightarrow> 0.5 | Some current \<Rightarrow> current)"
    by (simp add: sample_token_def sample_score_def)
  show ?thesis
    using blend_monotone_in_elapsed
            [where ?clock1.0 = "clock_at 10" and ?clock2.0 = "clock_at 17"
               and cts = flat_stability, OF h1 h2 h3 h4 h5 h6 h7]
          h1 h2 h3 h4 h5 h6'
    by auto
qed

text \<open>
  C9 (as the code has it). \<open>update_reputation\<close> takes no time argument: it reads the
  system clock once, after the token lookup. The value it returns and the manager it
  leaves are determined by the manager, the token id, the activity and that one reading:
  two clocks that agree on the next reading give the same result, whatever they return
  later, and the call consumes at most that one reading.
\<close>

theorem update_reputation_reads_clock_once:
  assumes "clock1 0 = clock2 0"
  shows "fst (update_reputation hl cts clock1 self token_id new_activity) =
         fst (update_reputation hl cts clock2 self token_id new_activity) \<and>
         fst (snd (update_reputation hl cts clock1 self token_id new_activity)) =
         fst (snd (update_reputation hl cts clock2 self token_id new_activity)) \<and>
         (snd (snd (update_reputation hl cts clock1 self token_id new_activity)) = clock1 \<or>
          snd (snd (update_reputation hl cts clock1 self token_id new_activity))
            = (\<lambda>k. clock1 (Suc k)))"
proof (cases "tokens self token_id")
  case None
  then show ?thesis by (simp add: update_reputation_def get_token_mut_def)
next
  case (Some token)
  then show ?thesis using assms by (simp add: update_reputation_found Let_def)
qed

theorem update_reputation_reads_clock_once_witness:
  "clock_at 17 0 = ticking_clock 17 0 \<and>
   fst (update_reputation 7 flat_stability (clock_at 17) sample_manager 0 sample_activity) =
   fst (update_reputation 7 flat_stability (ticking_clock 17) sample_manager 0 sample_activity) \<and>
   fst (snd (update_reputation 7 flat_stability (clock_at 17) sample_manager 0 sample_activity)) =
   fst (snd (update_reputation 7 flat_stability (ticking_clock 17) sample_manager 0
               sample_activity))"
proof -
  have h: "clock_at 17 0 = ticking_clock 17 0"
    by (simp add: clock_at_def ticking_clock_def)
  show ?thesis
    using update_reputation_reads_clock_once
            [where ?clock1.0 = "clock_at 17" and ?clock2.0 = "ticking_clock 17", OF h] h
    by simp
qed

text \<open>
  The claim as stated excludes a dependence on the system clock. The same manager, token
  and activity give the category score 1/2 when the clock reads 10 and 3/4 when it
  reads 17, and the token is left with \<open>last_updated\<close> 10 in one case and 17 in the other.
\<close>

theorem update_reputation_depends_on_clock:
  "(case fst (update_reputation 7 flat_stability (clock_at 10) sample_manager 0 sample_activity) of
      Inl e \<Rightarrow> None
    | Inr score \<Rightarrow> category_scores score ''creative_output_quality'') = Some (1 / 2) \<and>
   (case fst (update_reputation 7 flat_stability (clock_at 17) sample_manager 0 sample_activity) of
      Inl e \<Rightarrow> None
    | Inr score \<Rightarrow> category_scores score ''creative_output_quality'') = Some (3 / 4) \<and>
   map_option last_updated
     (tokens (fst (snd (update_reputation 7 flat_stability (clock_at 10) sample_manager 0
                          sample_activity))) 0) = Some 10 \<and>
   map_option last_updated
     (tokens (fst (snd (update_reputation 7 flat_stability (clock_at 17) sample_manager 0
                          sample_activity))) 0) = Some 17"
proof -
  have h1: "tokens sample_manager 0 = Some sample_token"
    by (simp add: sample_manager_def)
  have t: "last_updated sample_token = 10"
    "category_scores (reputation_score sample_token) = 
       [''creative_output_quality'' \<mapsto> 0.5, ''mentoring'' \<mapsto> 0.3]"
    by (simp_all add: sample_token_def sample_score_def)
  show ?thesis
    by (simp add: update_reputation_found [OF h1] Let_def clock_at_def t sample_activity_def
          sample_decay_half sample_decay_one clamp_def)
qed

text \<open>
  C5. \<open>analyze_emotional_trend\<close> returns Stable for a history of fewer than two
  entries. Otherwise it applies the priority rule to the valence and arousal diffs
  between the two ends of its window: Stable if both absolute diffs are below 0.1, else
  Volatile if either exceeds 0.3, else Ascending if either diff exceeds 0.1, else
  Descending if either is below -0.1, else Stable. The window of the code ends at the
  entries 0 and \<open>min(5, len) - 1\<close> of the history.
\<close>

theorem analyze_emotional_trend_priority:
  "analyze_emotional_trend history =
     (if length history < 2 then Stable
      else spec_trend_rule
             (valence (history ! (min 5 (length history) - 1)) - valence (history ! 0))
             (arousal (history ! (min 5 (length history) - 1)) - arousal (history ! 0)))"
proof (cases "length history < 2")
  case True
  then show ?thesis by (simp add: analyze_emotional_trend_def)
next
  case False
  then have len: "2 \<le> length history" by simp
  show ?thesis
    using False
    by (simp add: analyze_emotional_trend_def spec_trend_rule_def Let_def recent_ends [OF len])
qed

text \<open>
  C2. The claim places the window on the last \<open>min(5, len)\<close> entries, so that the latest
  observation always takes part. The code takes \<open>take(5.min(len))\<close>, the first entries:
  on six observations whose last one jumps by 1 in valence it answers Stable, where the
  window of the claim gives a valence diff of 1 and the class Volatile.
\<close>

theorem analyze_emotional_trend_ignores_latest:
  "length sample_history = 6 \<and>
   analyze_emotional_trend sample_history = Stable \<and>
   spec_classify_trend sample_history = Volatile"
  by (simp add: analyze_emotional_trend_def spec_classify_trend_def spec_window_def
        spec_trend_rule_def sample_history_def point_def Let_def)

text \<open>
  C6. \<open>calculate_complexity\<close> stores 0 for a trajectory of fewer than two points and
  otherwise \<open>clamp(total / len, 0, 1)\<close>, where \<open>total\<close> is the sum over
  \<open>i = 1 .. len - 1\<close> of the Euclidean distance between the (valence, arousal) pairs of
  the points \<open>i - 1\<close> and \<open>i\<close>. No other field changes.
\<close>

theorem calculate_complexity_formula:
  "calculate_complexity self =
     self \<lparr> emotional_complexity :=
       (if length (emotional_trajectory self) < 2 then 0
        else clamp
          ((\<Sum>i = 1..<length (emotional_trajectory self).
               sqrt ((valence (emotional_trajectory self ! i)
                        - valence (emotional_trajectory self ! (i - 1)))\<^sup>2 +
                     (arousal (emotional_trajectory self ! i)
                        - arousal (emotional_trajectory self ! (i - 1)))\<^sup>2))
             / real (length (emotional_trajectory self)))
          0 1) \<rparr>"
  by (simp add: calculate_complexity_def Let_def fold_add_upt)

end
